theory Spec2Isabelle
  imports Complex_Main "HOL-Library.Sublist"
begin

section \<open>Values of the host language\<close>

text \<open>
  \<^verbatim>\<open>script/validate-data/index.ts\<close> reads JSON metadata documents with \<^verbatim>\<open>JSON.parse\<close>.
  The TypeScript interface \<^verbatim>\<open>WorkflowProperties\<close> is erased at run time, so the value
  the code works on is an arbitrary JSON value. An object is an association list of its
  own properties; a number is represented by a real, of which the program only observes
  whether it is zero.
\<close>

datatype json =
    JNull
  | JBool bool
  | JNum real
  | JStr string
  | JArr "json list"
  | JObj "(string \<times> json) list"

text \<open>
  A thrown value. Everything the script's operations throw is an \<^verbatim>\<open>Error\<close> object, and the
  program observes it only through \<^verbatim>\<open>e.toString()\<close> (and the template literal \<^verbatim>\<open>${e}\<close>,
  which is the same text), so an exception is represented by that text.
\<close>

datatype js_error = JsError string

fun toString :: "js_error \<Rightarrow> string" where
  "toString (JsError s) = s"

text \<open>The two exceptions the script's own expressions can raise (V8's wording).\<close>

definition nullProperty_TypeError :: js_error where
  "nullProperty_TypeError = JsError ''TypeError: Cannot read property 'iconName' of null''"

definition startsWith_TypeError :: js_error where
  "startsWith_TypeError = JsError ''TypeError: properties.iconName.startsWith is not a function''"

text \<open>
  \<^verbatim>\<open>properties.iconName\<close>: reading a property of \<^verbatim>\<open>null\<close> throws; an object yields
  its own property or \<^verbatim>\<open>undefined\<close> (\<open>None\<close>); every other JSON value yields
  \<^verbatim>\<open>undefined\<close>.
\<close>

fun getIconName :: "json \<Rightarrow> js_error + json option" where
  "getIconName JNull = Inl nullProperty_TypeError"
| "getIconName (JObj kvs) = Inr (map_of kvs ''iconName'')"
| "getIconName _ = Inr None"

text \<open>Truthiness of a value in a condition; \<open>None\<close> is \<^verbatim>\<open>undefined\<close>.\<close>

fun truthy :: "json option \<Rightarrow> bool" where
  "truthy None = False"
| "truthy (Some JNull) = False"
| "truthy (Some (JBool b)) = b"
| "truthy (Some (JNum n)) = (n \<noteq> 0)"
| "truthy (Some (JStr s)) = (s \<noteq> [])"
| "truthy (Some (JArr xs)) = True"
| "truthy (Some (JObj kvs)) = True"

text \<open>\<^verbatim>\<open>s.startsWith(p)\<close> on strings.\<close>

definition startsWith :: "string \<Rightarrow> string \<Rightarrow> bool" where
  "startsWith s p = prefix p s"

text \<open>Decimal rendering of a non-negative integer, as string concatenation does it.\<close>

definition digits :: string where
  "digits = ''0123456789''"

fun showNat :: "nat \<Rightarrow> string" where
  "showNat n = (if n < 10 then [digits ! n] else showNat (n div 10) @ [digits ! (n mod 10)])"

declare showNat.simps [simp del]

text \<open>\<^verbatim>\<open>xs.join(sep)\<close> on an array of strings.\<close>

fun array_join :: "string \<Rightarrow> string list \<Rightarrow> string" where
  "array_join sep [] = []"
| "array_join sep [x] = x"
| "array_join sep (x # y # ys) = x @ sep @ array_join sep (y # ys)"

section \<open>The schema-validation engine\<close>

text \<open>
  Modelled from the spec: the schema-validation engine (\<^verbatim>\<open>Validator.validate\<close> of the
  third-party \<^verbatim>\<open>jsonschema\<close> package, imported on line 5) is not among the sources. The
  spec treats it as a black box with the contract of its section 4.2: each violated
  constraint of the schema (a required field missing, a wrong type, no alternative
  matching) is one violation, rendered as one string. This section models the engine for
  the five keywords \<^verbatim>\<open>propertiesSchema\<close> uses, following the package's behaviour on them.
\<close>

text \<open>
  Modelled from the spec: a schema document. The keywords of a schema object are kept in
  the order they are written, which is the order the engine visits them in.
\<close>

datatype schema = Schema "keyword list"
and keyword =
    Type string
  | Properties "(string \<times> schema) list"
  | Items schema
  | AnyOf "schema list"
  | Required bool

text \<open>
  Modelled from the spec: a violation, with the two fields its rendering is built from,
  the path of the offending value and the message, and the rendering \<^verbatim>\<open>e.toString()\<close>.
\<close>

record ValidationError =
  property :: string
  message :: string

definition ValidationError_toString :: "ValidationError \<Rightarrow> string" where
  "ValidationError_toString e = property e @ '' '' @ message e"

text \<open>
  Modelled from the spec: whether a value has the type a \<^verbatim>\<open>type\<close> keyword names; a name the
  engine does not know admits every value.
\<close>

fun testType :: "json \<Rightarrow> string \<Rightarrow> bool" where
  "testType v t =
     (if t = ''string'' then (case v of JStr _ \<Rightarrow> True | _ \<Rightarrow> False)
      else if t = ''number'' then (case v of JNum _ \<Rightarrow> True | _ \<Rightarrow> False)
      else if t = ''integer'' then (case v of JNum n \<Rightarrow> n = of_int \<lfloor>n\<rfloor> | _ \<Rightarrow> False)
      else if t = ''boolean'' then (case v of JBool _ \<Rightarrow> True | _ \<Rightarrow> False)
      else if t = ''array'' then (case v of JArr _ \<Rightarrow> True | _ \<Rightarrow> False)
      else if t = ''null'' then (case v of JNull \<Rightarrow> True | _ \<Rightarrow> False)
      else if t = ''object'' then (case v of JObj _ \<Rightarrow> True | _ \<Rightarrow> False)
      else True)"

text \<open>
  Modelled from the spec: validation of an instance against a schema, keyword by keyword.
  The instance of a sub-schema is \<open>None\<close> when the property is absent (\<^verbatim>\<open>undefined\<close>):
  \<^item> \<^verbatim>\<open>type\<close> ignores an absent instance and otherwise reports a value of another type;
  \<^item> \<^verbatim>\<open>properties\<close> applies to objects only and validates each listed property, present
    or not, under the path \<^verbatim>\<open>parent.property\<close>;
  \<^item> \<^verbatim>\<open>items\<close> applies to arrays only and validates each element;
  \<^item> \<^verbatim>\<open>anyOf\<close> ignores an absent instance and otherwise reports one violation when no
    alternative validates without violations (the alternatives' own violations are not
    reported);
  \<^item> \<^verbatim>\<open>required: true\<close> reports an absent instance.
\<close>

fun validateSchema :: "json option \<Rightarrow> schema \<Rightarrow> string \<Rightarrow> ValidationError list"
and validateKeyword :: "json option \<Rightarrow> keyword \<Rightarrow> string \<Rightarrow> ValidationError list"
where
  "validateSchema inst (Schema kws) path = concat (map (\<lambda>k. validateKeyword inst k path) kws)"
| "validateKeyword inst (Type t) path =
     (case inst of
        None \<Rightarrow> []
      | Some v \<Rightarrow>
          if testType v t then []
          else [\<lparr>property = path, message = ''is not of a type(s) '' @ t\<rparr>])"
| "validateKeyword inst (Properties ps) path =
     (case inst of
        Some (JObj kvs) \<Rightarrow>
          concat (map (\<lambda>p. validateSchema (map_of kvs (fst p)) (snd p) (path @ ''.'' @ fst p)) ps)
      | _ \<Rightarrow> [])"
| "validateKeyword inst (Items sub) path =
     (case inst of
        Some (JArr xs) \<Rightarrow>
          concat (map (\<lambda>iv. validateSchema (Some (snd iv)) sub
                                (path @ ''['' @ showNat (fst iv) @ '']''))
                      (enumerate 0 xs))
      | _ \<Rightarrow> [])"
| "validateKeyword inst (AnyOf subs) path =
     (case inst of
        None \<Rightarrow> []
      | Some v \<Rightarrow>
          if list_ex (\<lambda>sub. validateSchema inst sub path = []) subs then []
          else [\<lparr>property = path,
                 message = ''is not any of '' @
                   array_join '','' (map (\<lambda>i. ''[subschema '' @ showNat i @ '']'')
                                        [0..<length subs])\<rparr>])"
| "validateKeyword inst (Required b) path =
     (if inst = None \<and> b then [\<lparr>property = path, message = ''is required''\<rparr>] else [])"

text \<open>
  Modelled from the spec: \<^verbatim>\<open>v.validate(instance, schema).errors\<close>; the path of the root
  instance is \<^verbatim>\<open>instance\<close>.
\<close>

definition validate :: "json \<Rightarrow> schema \<Rightarrow> ValidationError list" where
  "validate instance sch = validateSchema (Some instance) sch ''instance''"

text \<open>The constant \<^verbatim>\<open>propertiesSchema\<close> of the script (lines 21 to 41).\<close>

definition propertiesSchema :: schema where
  "propertiesSchema =
     Schema [
       Type ''object'',
       Properties [
         (''name'', Schema [Type ''string'', Required True]),
         (''description'', Schema [Type ''string'', Required True]),
         (''creator'', Schema [Type ''string'', Required False]),
         (''iconName'', Schema [Type ''string'', Required True]),
         (''categories'',
            Schema [
              AnyOf [
                Schema [Type ''array'', Items (Schema [Type ''string''])],
                Schema [Type ''null'']],
              Required True])]]"

section \<open>The environment of a run\<close>

text \<open>
  A directory entry as \<^verbatim>\<open>fs.readdir\<close> returns it with \<^verbatim>\<open>withFileTypes\<close>.
\<close>

record dirent =
  name :: string
  isFile :: bool

text \<open>
  Everything the script takes from outside itself. The file system is only read, so each
  operation is a function of its argument; an operation that rejects or throws returns
  \<open>Inl\<close>. The parsed workflow body has an arbitrary type \<open>'y\<close>: the script only hands it
  from the YAML loader to the workflow-schema validation (the schema file
  \<^verbatim>\<open>workflow-schema.json\<close> is not among the sources), which yields the rendered
  violations or throws. \<open>elapsed\<close> is the rendering of the measured duration
  \<^verbatim>\<open>t1 - t0\<close>.
\<close>

record 'y env =
  readFile :: "string \<Rightarrow> js_error + string"
  readdir :: "string \<Rightarrow> js_error + dirent list"
  access :: "string \<Rightarrow> js_error + unit"
  JSON_parse :: "string \<Rightarrow> js_error + json"
  safeLoad :: "string \<Rightarrow> js_error + 'y"
  validateWorkflowSchema :: "'y \<Rightarrow> js_error + string list"
  path_join :: "string list \<Rightarrow> string"
  path_basename :: "string \<Rightarrow> string \<Rightarrow> string"
  path_extname :: "string \<Rightarrow> string"
  settingsFolders :: "js_error + string list"
  elapsed :: string

section \<open>The Metadata Validator\<close>

text \<open>
  \<^verbatim>\<open>validateWorkflowProperties\<close> (lines 68 to 89). The result is \<open>Inl\<close> when the function
  throws (its own \<^verbatim>\<open>catch\<close> rethrows) and \<open>Inr\<close> of the error strings otherwise. The first
  component lists the paths handed to \<^verbatim>\<open>fs.access\<close>, the icon-existence checks performed.
\<close>

definition validateWorkflowProperties ::
  "'y env \<Rightarrow> string \<Rightarrow> string list \<times> (js_error + string list)" where
  "validateWorkflowProperties env propertiesPath =
     (case readFile env propertiesPath of
        Inl e \<Rightarrow> ([], Inl e)
      | Inr propertiesFileContent \<Rightarrow>
          (case JSON_parse env propertiesFileContent of
             Inl e \<Rightarrow> ([], Inl e)
           | Inr properties \<Rightarrow>
               (let errors = map ValidationError_toString (validate properties propertiesSchema)
                in case getIconName properties of
                     Inl e \<Rightarrow> ([], Inl e)
                   | Inr iconName \<Rightarrow>
                       if truthy iconName then
                         (case iconName of
                            Some (JStr s) \<Rightarrow>
                              if \<not> startsWith s ''octicon'' then
                                (let iconPath = ''../../icons/'' @ s @ ''.svg''
                                 in case access env iconPath of
                                      Inl e \<Rightarrow>
                                        ([iconPath],
                                         Inr (errors @ [''No icon named '' @ s @ '' found'']))
                                    | Inr u \<Rightarrow> ([iconPath], Inr errors))
                              else ([], Inr errors)
                          | _ \<Rightarrow> ([], Inl startsWith_TypeError))
                       else ([], Inr errors))))"

section \<open>The Workflow Validator\<close>

record WorkflowWithErrors =
  id' :: string
  errors :: "string list"

text \<open>
  The \<^verbatim>\<open>try\<close> block of \<^verbatim>\<open>checkWorkflow\<close> (lines 97 to 109), started on the record being
  built. When a statement throws, the block ends with the exception and the record as it
  is at that point.
\<close>

definition checkWorkflow_try ::
  "'y env \<Rightarrow> string \<Rightarrow> string \<Rightarrow> WorkflowWithErrors \<Rightarrow>
     (js_error \<times> WorkflowWithErrors) + WorkflowWithErrors" where
  "checkWorkflow_try env workflowPath propertiesPath workflowErrors =
     (case snd (validateWorkflowProperties env propertiesPath) of
        Inl e \<Rightarrow> Inl (e, workflowErrors)
      | Inr propertiesErrors \<Rightarrow>
          (let workflowErrors1 = workflowErrors\<lparr>errors := propertiesErrors\<rparr>
           in case readFile env workflowPath of
                Inl e \<Rightarrow> Inl (e, workflowErrors1)
              | Inr workflowFileContent \<Rightarrow>
                  (case safeLoad env workflowFileContent of
                     Inl e \<Rightarrow> Inl (e, workflowErrors1)
                   | Inr workflow \<Rightarrow>
                       (case validateWorkflowSchema env workflow of
                          Inl e \<Rightarrow> Inl (e, workflowErrors1)
                        | Inr workflowValidationErrors \<Rightarrow>
                            Inr (workflowErrors1
                                  \<lparr>errors := errors workflowErrors1 @ workflowValidationErrors\<rparr>)))))"

text \<open>
  \<^verbatim>\<open>checkWorkflow\<close> (lines 91 to 114): the \<^verbatim>\<open>catch\<close> clause pushes the rendered exception
  onto the record's errors. The result type keeps the possibility of a throw.
\<close>

definition checkWorkflow :: "'y env \<Rightarrow> string \<Rightarrow> string \<Rightarrow> js_error + WorkflowWithErrors" where
  "checkWorkflow env workflowPath propertiesPath =
     (let workflowErrors = \<lparr>id' = workflowPath, errors = []\<rparr>
      in case checkWorkflow_try env workflowPath propertiesPath workflowErrors of
           Inl (e, workflowErrors1) \<Rightarrow>
             Inr (workflowErrors1\<lparr>errors := errors workflowErrors1 @ [toString e]\<rparr>)
         | Inr workflowErrors1 \<Rightarrow> Inr workflowErrors1)"

section \<open>The Directory Scanner\<close>

text \<open>The two paths the scanner derives for a directory entry (lines 52 to 55).\<close>

definition workflowFilePath :: "'y env \<Rightarrow> string \<Rightarrow> dirent \<Rightarrow> string" where
  "workflowFilePath env folder e = path_join env [folder, name e]"

definition propertiesFilePath :: "'y env \<Rightarrow> string \<Rightarrow> dirent \<Rightarrow> string" where
  "propertiesFilePath env folder e =
     (let fileType = path_basename env (name e) (path_extname env (name e))
      in path_join env [folder, ''properties'', fileType @ ''.properties.json''])"

text \<open>The inner loop over the entries of one folder (lines 50 to 62).\<close>

fun checkEntries ::
  "'y env \<Rightarrow> string \<Rightarrow> dirent list \<Rightarrow> WorkflowWithErrors list \<Rightarrow>
     js_error + WorkflowWithErrors list" where
  "checkEntries env folder [] result = Inr result"
| "checkEntries env folder (e # dir) result =
     (if isFile e then
        (case checkWorkflow env (workflowFilePath env folder e) (propertiesFilePath env folder e) of
           Inl ex \<Rightarrow> Inl ex
         | Inr errs \<Rightarrow>
             if length (errors errs) > 0 then checkEntries env folder dir (result @ [errs])
             else checkEntries env folder dir result)
      else checkEntries env folder dir result)"

text \<open>The outer loop over the folders (lines 45 to 63).\<close>

fun checkFolders ::
  "'y env \<Rightarrow> string list \<Rightarrow> WorkflowWithErrors list \<Rightarrow> js_error + WorkflowWithErrors list" where
  "checkFolders env [] result = Inr result"
| "checkFolders env (folder # folders) result =
     (case readdir env folder of
        Inl ex \<Rightarrow> Inl ex
      | Inr dir \<Rightarrow>
          (case checkEntries env folder dir result of
             Inl ex \<Rightarrow> Inl ex
           | Inr result1 \<Rightarrow> checkFolders env folders result1))"

definition checkWorkflows :: "'y env \<Rightarrow> string list \<Rightarrow> js_error + WorkflowWithErrors list" where
  "checkWorkflows env folders = checkFolders env folders []"

section \<open>The driver\<close>

text \<open>What the driver emits through \<^verbatim>\<open>@actions/core\<close>, in order.\<close>

datatype log_event =
    Info string
  | Error string
  | StartGroup string
  | EndGroup
  | SetFailed string

text \<open>The emoji of the two messages, as UTF-8 bytes.\<close>

definition worried_face :: string where
  "worried_face = [CHR 0xF0, CHR 0x9F, CHR 0x98, CHR 0x9F]"

definition party_horns :: string where
  "party_horns = [CHR 0xF0, CHR 0x9F, CHR 0x8E, CHR 0x89, CHR 0xF0, CHR 0x9F, CHR 0xA4, CHR 0x98]"

definition main_catch :: "js_error \<Rightarrow> log_event list" where
  "main_catch e =
     [Error (''Unhandled error while syncing workflows: '' @ toString e),
      SetFailed ''Unhandled error'']"

definition main :: "'y env \<Rightarrow> log_event list" where
  "main env =
     (case settingsFolders env of
        Inl e \<Rightarrow> main_catch e
      | Inr folders \<Rightarrow>
          (case checkWorkflows env folders of
             Inl e \<Rightarrow> main_catch e
           | Inr erroredWorkflows \<Rightarrow>
               Info (''Call to checkWorkflows took '' @ elapsed env @ '' milliseconds.'') #
               (if length erroredWorkflows > 0 then
                  [StartGroup (worried_face @ '' - Found '' @ showNat (length erroredWorkflows) @
                               '' workflows with errors:'')] @
                  map (\<lambda>erroredWorkflow.
                         Error (''Errors in '' @ id' erroredWorkflow @ '' - '' @
                                array_join '', '' (errors erroredWorkflow)))
                      erroredWorkflows @
                  [EndGroup,
                   SetFailed (''Found '' @ showNat (length erroredWorkflows) @
                              '' workflows with errors'')]
                else [Info (party_horns @ '' - Found no workflows with errors!'')])))"

section \<open>A sample repository\<close>

text \<open>
  A small environment on which the theorems below are evaluated: two folders of workflow
  files with their metadata documents, one icon file, and parsers given by their values
  on the files' contents. The metadata of \<^verbatim>\<open>automation/label.yml\<close> is missing and that of
  \<^verbatim>\<open>ci/lint.yml\<close> is not JSON.
\<close>

definition demo_build_text :: string where
  "demo_build_text =
     ''{\"name\":\"Build\",\"description\":\"Build and test\",\"iconName\":\"octicon rocket\",\"categories\":[\"CI\"]}''"

definition demo_broken_text :: string where
  "demo_broken_text = ''{\"description\":\"Deploy\",\"iconName\":\"rocket\",\"categories\":null}''"

definition demo_stale_text :: string where
  "demo_stale_text =
     ''{\"name\":\"Stale\",\"description\":\"Close stale issues\",\"iconName\":\"\",\"categories\":null}''"

definition demo_numeric_text :: string where
  "demo_numeric_text = ''{\"description\":\"Numeric icon\",\"iconName\":5,\"categories\":null}''"

definition demo_greet_text :: string where
  "demo_greet_text =
     ''{\"name\":\"Greet\",\"description\":\"Greet newcomers\",\"iconName\":\"wave\",\"categories\":\"fun\"}''"

definition demo_build_properties :: json where
  "demo_build_properties =
     JObj [(''name'', JStr ''Build''), (''description'', JStr ''Build and test''),
           (''iconName'', JStr ''octicon rocket''), (''categories'', JArr [JStr ''CI''])]"

definition demo_broken_properties :: json where
  "demo_broken_properties =
     JObj [(''description'', JStr ''Deploy''), (''iconName'', JStr ''rocket''),
           (''categories'', JNull)]"

definition demo_stale_properties :: json where
  "demo_stale_properties =
     JObj [(''name'', JStr ''Stale''), (''description'', JStr ''Close stale issues''),
           (''iconName'', JStr []), (''categories'', JNull)]"

definition demo_numeric_properties :: json where
  "demo_numeric_properties =
     JObj [(''description'', JStr ''Numeric icon''), (''iconName'', JNum 5),
           (''categories'', JNull)]"

definition demo_greet_properties :: json where
  "demo_greet_properties =
     JObj [(''name'', JStr ''Greet''), (''description'', JStr ''Greet newcomers''),
           (''iconName'', JStr ''wave''), (''categories'', JStr ''fun'')]"

definition demo_files :: "(string \<times> string) list" where
  "demo_files =
     [(''ci/build.yml'', ''on: push''),
      (''ci/properties/build.properties.json'', demo_build_text),
      (''ci/broken.yml'', ''on: [''),
      (''ci/properties/broken.properties.json'', demo_broken_text),
      (''ci/lint.yml'', ''on: push''),
      (''ci/properties/lint.properties.json'', ''{''),
      (''automation/label.yml'', ''on: push''),
      (''automation/stale.yml'', ''on: push''),
      (''automation/properties/stale.properties.json'', demo_stale_text),
      (''automation/numeric.yml'', ''on: push''),
      (''automation/properties/numeric.properties.json'', demo_numeric_text),
      (''automation/greet.yml'', ''jobs: {}''),
      (''automation/properties/greet.properties.json'', demo_greet_text)]"

definition demo_readdir :: "string \<Rightarrow> js_error + dirent list" where
  "demo_readdir folder =
     (if folder = ''ci'' then
        Inr [\<lparr>name = ''build.yml'', isFile = True\<rparr>,
             \<lparr>name = ''properties'', isFile = False\<rparr>,
             \<lparr>name = ''broken.yml'', isFile = True\<rparr>,
             \<lparr>name = ''lint.yml'', isFile = True\<rparr>]
      else if folder = ''automation'' then
        Inr [\<lparr>name = ''label.yml'', isFile = True\<rparr>,
             \<lparr>name = ''stale.yml'', isFile = True\<rparr>,
             \<lparr>name = ''numeric.yml'', isFile = True\<rparr>,
             \<lparr>name = ''properties'', isFile = False\<rparr>,
             \<lparr>name = ''greet.yml'', isFile = True\<rparr>]
      else Inl (JsError (''Error: ENOENT: no such file or directory, scandir '' @ folder)))"

definition demo_env :: "json env" where
  "demo_env =
     \<lparr>readFile = (\<lambda>p. case map_of demo_files p of
                          Some content \<Rightarrow> Inr content
                        | None \<Rightarrow> Inl (JsError (''Error: ENOENT: no such file or directory, open '' @ p))),
      readdir = demo_readdir,
      access = (\<lambda>p. if p = ''../../icons/wave.svg'' then Inr ()
                      else Inl (JsError (''Error: ENOENT: no such file or directory, access '' @ p))),
      JSON_parse = (\<lambda>s. case map_of [(demo_build_text, demo_build_properties),
                                         (demo_broken_text, demo_broken_properties),
                                         (demo_stale_text, demo_stale_properties),
                                         (demo_numeric_text, demo_numeric_properties),
                                         (demo_greet_text, demo_greet_properties)] s of
                            Some v \<Rightarrow> Inr v
                          | None \<Rightarrow> Inl (JsError ''SyntaxError: Unexpected end of JSON input'')),
      safeLoad = (\<lambda>s. if s = ''on: push'' then Inr (JObj [(''on'', JStr ''push'')])
                        else if s = ''jobs: {}'' then Inr (JObj [(''jobs'', JObj [])])
                        else Inl (JsError ''YAMLException: unexpected end of the stream within a flow collection'')),
      validateWorkflowSchema = (\<lambda>y. case y of
                                   JObj kvs \<Rightarrow> Inr (if map_of kvs ''on'' = None
                                                      then [''instance requires property \"on\"''] else [])
                                 | _ \<Rightarrow> Inr [''instance is not of a type(s) object'']),
      path_join = array_join ''/'',
      path_basename = (\<lambda>p ext. if suffix ext p then take (length p - length ext) p else p),
      path_extname = (\<lambda>p. if suffix ''.yml'' p then ''.yml'' else []),
      settingsFolders = Inr [''ci'', ''automation''],
      elapsed = ''12.5''\<rparr>"

definition demo_env_missing :: "json env" where
  "demo_env_missing = demo_env\<lparr>settingsFolders := Inr [''ci'', ''missing'', ''automation'']\<rparr>"

section \<open>Vocabulary of the specification\<close>

text \<open>
  The entries of a folder as the scanner sees them (none when the listing fails), the
  record the Workflow Validator returns for an entry (it always returns one, lemma
  \<open>checkWorkflow_Inr\<close> below), and the records of all regular files in discovery order:
  folder order, then directory-listing order within a folder.
\<close>

definition listing :: "'y env \<Rightarrow> string \<Rightarrow> dirent list" where
  "listing env folder = (case readdir env folder of Inl e \<Rightarrow> [] | Inr dir \<Rightarrow> dir)"

definition checkWorkflow_record :: "'y env \<Rightarrow> string \<Rightarrow> dirent \<Rightarrow> WorkflowWithErrors" where
  "checkWorkflow_record env folder e =
     projr (checkWorkflow env (workflowFilePath env folder e) (propertiesFilePath env folder e))"

definition discovered :: "'y env \<Rightarrow> string list \<Rightarrow> WorkflowWithErrors list" where
  "discovered env folders =
     concat (map (\<lambda>folder. map (checkWorkflow_record env folder) (filter isFile (listing env folder)))
                 folders)"

text \<open>A value the schema admits for \<^verbatim>\<open>categories\<close>: an array of strings, or null.\<close>

fun isStringArrayOrNull :: "json \<Rightarrow> bool" where
  "isStringArrayOrNull JNull = True"
| "isStringArrayOrNull (JArr xs) = list_all (\<lambda>x. case x of JStr s \<Rightarrow> True | _ \<Rightarrow> False) xs"
| "isStringArrayOrNull _ = False"

section \<open>The engine on the metadata schema\<close>

text \<open>Every violation is reported at a path below the one the validation started from.\<close>

lemma validate_property_prefix:
  "e \<in> set (validateSchema inst s path) \<Longrightarrow> prefix path (property e)"
  "e \<in> set (validateKeyword inst k path) \<Longrightarrow> prefix path (property e)"
proof (induction inst s path and inst k path arbitrary: e and e
       rule: validateSchema_validateKeyword.induct)
  case (1 inst kws path)
  then show ?case by auto
next
  case (2 inst t path)
  then show ?case by (auto split: option.splits if_splits)
next
  case (3 inst ps path)
  then show ?case
    by (fastforce split: option.splits json.splits dest: append_prefixD)
next
  case (4 inst sub path)
  then show ?case
    by (fastforce split: option.splits json.splits dest: append_prefixD)
next
  case (5 inst subs path)
  then show ?case by (auto split: option.splits if_splits)
next
  case (6 inst b path)
  then show ?case by (auto split: if_splits)
qed

text \<open>On an object, the metadata schema validates its five properties one after the other.\<close>

lemma validate_JObj:
  "validate (JObj kvs) propertiesSchema =
     validateSchema (map_of kvs ''name'') (Schema [Type ''string'', Required True])
       ''instance.name'' @
     validateSchema (map_of kvs ''description'') (Schema [Type ''string'', Required True])
       ''instance.description'' @
     validateSchema (map_of kvs ''creator'') (Schema [Type ''string'', Required False])
       ''instance.creator'' @
     validateSchema (map_of kvs ''iconName'') (Schema [Type ''string'', Required True])
       ''instance.iconName'' @
     validateSchema (map_of kvs ''categories'')
       (Schema [AnyOf [Schema [Type ''array'', Items (Schema [Type ''string''])],
                       Schema [Type ''null'']],
                Required True]) ''instance.categories''"
  by (simp add: validate_def propertiesSchema_def)

lemma rendered_violation_prefix:
  assumes "s \<in> set (map ValidationError_toString (validate properties propertiesSchema))"
  shows "prefix ''instance'' s"
proof -
  from assms obtain e where e: "e \<in> set (validate properties propertiesSchema)"
    and s: "s = ValidationError_toString e" by auto
  from e have "prefix ''instance'' (property e)"
    unfolding validate_def by (rule validate_property_prefix(1))
  then show ?thesis
    unfolding s ValidationError_toString_def by (rule prefix_prefix)
qed

text \<open>No rendered schema violation reads like the missing-icon message.\<close>

lemma no_icon_error_among_violations:
  "''No icon named '' @ x @ '' found'' \<notin>
     set (map ValidationError_toString (validate properties propertiesSchema))"
proof
  assume "''No icon named '' @ x @ '' found'' \<in>
            set (map ValidationError_toString (validate properties propertiesSchema))"
  then have "prefix ''instance'' (''No icon named '' @ x @ '' found'')"
    by (rule rendered_violation_prefix)
  then show False by simp
qed

lemma required_string_absent:
  "validateSchema None (Schema [Type ''string'', Required True]) path =
     [\<lparr>property = path, message = ''is required''\<rparr>]"
  by simp

lemma missing_field_violation:
  assumes "field \<in> {''name'', ''description'', ''iconName''}"
    and "map_of kvs field = None"
  shows "''instance.'' @ field @ '' is required'' \<in>
           set (map ValidationError_toString (validate (JObj kvs) propertiesSchema))"
proof -
  have "\<lparr>property = ''instance.'' @ field, message = ''is required''\<rparr> \<in>
          set (validate (JObj kvs) propertiesSchema)"
    using assms unfolding validate_JObj by (auto simp: required_string_absent)
  then have "ValidationError_toString \<lparr>property = ''instance.'' @ field, message = ''is required''\<rparr>
      \<in> set (map ValidationError_toString (validate (JObj kvs) propertiesSchema))"
    by (simp only: set_map) (rule imageI)
  then show ?thesis by (simp add: ValidationError_toString_def)
qed

lemma categories_filter_other:
  assumes "\<not> prefix ''instance.categories'' path" and "\<not> prefix path ''instance.categories''"
  shows "filter (\<lambda>e. prefix ''instance.categories'' (property e)) (validateSchema inst s path) = []"
proof -
  have "\<not> prefix ''instance.categories'' (property e)"
    if "e \<in> set (validateSchema inst s path)" for e
  proof
    assume "prefix ''instance.categories'' (property e)"
    moreover have "prefix path (property e)"
      using that by (rule validate_property_prefix(1))
    ultimately have "prefix ''instance.categories'' path \<or> prefix path ''instance.categories''"
      using prefix_same_cases by blast
    with assms show False by simp
  qed
  then show ?thesis by (simp add: filter_empty_conv)
qed

lemma showNat_0: "showNat 0 = ''0''"
  by (simp add: showNat.simps digits_def)

lemma showNat_1: "showNat (Suc 0) = ''1''"
  by (simp add: showNat.simps digits_def)

lemma string_items_valid:
  "(concat (map (\<lambda>iv. validateSchema (Some (snd iv)) (Schema [Type ''string'']) (g iv))
                (enumerate n xs)) = []) =
     list_all (\<lambda>x. case x of JStr s \<Rightarrow> True | _ \<Rightarrow> False) xs"
  by (induction xs arbitrary: n) (auto split: json.splits)

lemma items_string_valid:
  "(validateKeyword (Some (JArr xs)) (Items (Schema [Type ''string''])) path = []) =
     list_all (\<lambda>x. case x of JStr s \<Rightarrow> True | _ \<Rightarrow> False) xs"
  by (simp only: validateKeyword.simps option.case json.case string_items_valid)

lemma array_of_strings_valid:
  "(validateSchema (Some v) (Schema [Type ''array'', Items (Schema [Type ''string''])]) path = []) =
     (case v of JArr xs \<Rightarrow> list_all (\<lambda>x. case x of JStr s \<Rightarrow> True | _ \<Rightarrow> False) xs
              | _ \<Rightarrow> False)"
proof (cases v)
  case (JArr xs)
  have "validateSchema (Some (JArr xs)) (Schema [Type ''array'', Items (Schema [Type ''string''])]) path =
          validateKeyword (Some (JArr xs)) (Items (Schema [Type ''string''])) path"
    by simp
  then show ?thesis
    using JArr by (simp only: items_string_valid json.case)
qed simp_all

lemma null_valid:
  "(validateSchema (Some v) (Schema [Type ''null'']) path = []) = (v = JNull)"
  by (cases v) simp_all

lemma categories_violations:
  "validateSchema (Some v)
     (Schema [AnyOf [Schema [Type ''array'', Items (Schema [Type ''string''])],
                     Schema [Type ''null'']],
              Required True]) ''instance.categories'' =
   (if isStringArrayOrNull v then []
    else [\<lparr>property = ''instance.categories'',
           message = ''is not any of [subschema 0],[subschema 1]''\<rparr>])"
proof -
  have valid: "list_ex (\<lambda>sub. validateSchema (Some v) sub ''instance.categories'' = [])
                 [Schema [Type ''array'', Items (Schema [Type ''string''])],
                  Schema [Type ''null'']] =
               isStringArrayOrNull v"
    by (cases v)
       (simp_all only: list_ex_Nil_iff list_ex_Cons_iff array_of_strings_valid null_valid
          json.case isStringArrayOrNull.simps json.distinct simp_thms)
  have "validateSchema (Some v)
     (Schema [AnyOf [Schema [Type ''array'', Items (Schema [Type ''string''])],
                     Schema [Type ''null'']],
              Required True]) ''instance.categories'' =
     validateKeyword (Some v)
       (AnyOf [Schema [Type ''array'', Items (Schema [Type ''string''])], Schema [Type ''null'']])
       ''instance.categories''"
    by (simp only: validateSchema.simps validateKeyword.simps list.map concat.simps append_Nil2
          option.distinct simp_thms if_False)
  also have "\<dots> = (if isStringArrayOrNull v then []
    else [\<lparr>property = ''instance.categories'',
           message = ''is not any of [subschema 0],[subschema 1]''\<rparr>])"
    by (simp only: validateKeyword.simps option.case valid)
       (simp add: showNat_0 showNat_1 upt_rec)
  finally show ?thesis .
qed

section \<open>The Metadata Validator on a document\<close>

lemma validateWorkflowProperties_load_fails:
  "readFile env propertiesPath = Inl e \<Longrightarrow>
   validateWorkflowProperties env propertiesPath = ([], Inl e)"
  by (simp add: validateWorkflowProperties_def)

lemma validateWorkflowProperties_parse_fails:
  "readFile env propertiesPath = Inr content \<Longrightarrow> JSON_parse env content = Inl e \<Longrightarrow>
   validateWorkflowProperties env propertiesPath = ([], Inl e)"
  by (simp add: validateWorkflowProperties_def)

lemma validateWorkflowProperties_object:
  assumes "readFile env propertiesPath = Inr content"
    and "JSON_parse env content = Inr (JObj kvs)"
  shows "validateWorkflowProperties env propertiesPath =
     (let errors = map ValidationError_toString (validate (JObj kvs) propertiesSchema);
          iconName = map_of kvs ''iconName''
      in if truthy iconName then
           (case iconName of
              Some (JStr s) \<Rightarrow>
                if \<not> startsWith s ''octicon'' then
                  (case access env (''../../icons/'' @ s @ ''.svg'') of
                     Inl e \<Rightarrow> ([''../../icons/'' @ s @ ''.svg''],
                               Inr (errors @ [''No icon named '' @ s @ '' found'']))
                   | Inr u \<Rightarrow> ([''../../icons/'' @ s @ ''.svg''], Inr errors))
                else ([], Inr errors)
            | _ \<Rightarrow> ([], Inl startsWith_TypeError))
         else ([], Inr errors))"
  using assms
  by (simp add: validateWorkflowProperties_def Let_def split: option.splits json.splits sum.splits)

section \<open>The loops of the Directory Scanner\<close>

lemma checkWorkflow_Inr:
  "checkWorkflow env workflowPath propertiesPath =
     Inr (projr (checkWorkflow env workflowPath propertiesPath))"
  by (simp add: checkWorkflow_def Let_def split: sum.splits prod.splits)

lemma checkEntries_filter:
  "checkEntries env folder dir result =
     Inr (result @ filter (\<lambda>r. errors r \<noteq> [])
                     (map (checkWorkflow_record env folder) (filter isFile dir)))"
proof (induction dir arbitrary: result)
  case Nil
  show ?case by simp
next
  case (Cons e dir)
  show ?case
  proof (cases "isFile e")
    case False
    then show ?thesis by (simp add: Cons.IH)
  next
    case True
    obtain r where r:
      "checkWorkflow env (workflowFilePath env folder e) (propertiesFilePath env folder e) = Inr r"
      using checkWorkflow_Inr by blast
    then have "checkWorkflow_record env folder e = r"
      by (simp add: checkWorkflow_record_def)
    with True r show ?thesis
      by (simp add: Cons.IH)
  qed
qed

lemma checkFolders_filter:
  "\<forall>folder \<in> set folders. \<exists>dir. readdir env folder = Inr dir \<Longrightarrow>
   checkFolders env folders result =
     Inr (result @ filter (\<lambda>r. errors r \<noteq> []) (discovered env folders))"
proof (induction folders arbitrary: result)
  case Nil
  show ?case by (simp add: discovered_def)
next
  case (Cons folder folders)
  then obtain dir where dir: "readdir env folder = Inr dir" by auto
  have rest: "\<forall>f \<in> set folders. \<exists>dir. readdir env f = Inr dir"
    using Cons.prems by simp
  have "discovered env (folder # folders) =
          map (checkWorkflow_record env folder) (filter isFile dir) @ discovered env folders"
    by (simp add: discovered_def listing_def dir)
  then show ?case
    by (simp add: dir checkEntries_filter Cons.IH [OF rest])
qed

lemma checkFolders_listing_fails:
  "folder \<in> set folders \<Longrightarrow> readdir env folder = Inl e \<Longrightarrow>
   \<exists>f e1. f \<in> set folders \<and> readdir env f = Inl e1 \<and> checkFolders env folders result = Inl e1"
proof (induction folders arbitrary: result)
  case Nil
  then show ?case by simp
next
  case (Cons g folders)
  show ?case
  proof (cases "readdir env g")
    case (Inl e1)
    then show ?thesis by auto
  next
    case (Inr dir)
    with Cons.prems have mem: "folder \<in> set folders" by auto
    obtain result1 where r1: "checkEntries env g dir result = Inr result1"
      by (simp add: checkEntries_filter)
    from Cons.IH [OF mem Cons.prems(2), of result1]
    obtain f e1 where "f \<in> set folders" "readdir env f = Inl e1"
      "checkFolders env folders result1 = Inl e1"
      by blast
    with Inr r1 show ?thesis by auto
  qed
qed

section \<open>The sample repository, evaluated\<close>

lemmas demo_defs =
  demo_env_def demo_files_def demo_readdir_def demo_build_properties_def
  demo_broken_properties_def demo_stale_properties_def demo_numeric_properties_def
  demo_greet_properties_def demo_build_text_def demo_broken_text_def demo_stale_text_def
  demo_numeric_text_def demo_greet_text_def

lemmas eval_defs =
  validateWorkflowProperties_def validate_def propertiesSchema_def startsWith_def
  ValidationError_toString_def nullProperty_TypeError_def startsWith_TypeError_def
  showNat_0 showNat_1 upt_rec

lemma demo_build_metadata:
  "validateWorkflowProperties demo_env ''ci/properties/build.properties.json'' = ([], Inr [])"
  by (simp add: demo_defs eval_defs)

lemma demo_broken_metadata:
  "validateWorkflowProperties demo_env ''ci/properties/broken.properties.json'' =
     ([''../../icons/rocket.svg''],
      Inr [''instance.name is required'', ''No icon named rocket found''])"
  by (simp add: demo_defs eval_defs)

lemma demo_lint_metadata:
  "validateWorkflowProperties demo_env ''ci/properties/lint.properties.json'' =
     ([], Inl (JsError ''SyntaxError: Unexpected end of JSON input''))"
  by (simp add: demo_defs eval_defs)

lemma demo_label_metadata:
  "validateWorkflowProperties demo_env ''automation/properties/label.properties.json'' =
     ([], Inl (JsError ''Error: ENOENT: no such file or directory, open automation/properties/label.properties.json''))"
  by (simp add: demo_defs eval_defs)

lemma demo_stale_metadata:
  "validateWorkflowProperties demo_env ''automation/properties/stale.properties.json'' =
     ([], Inr [])"
  by (simp add: demo_defs eval_defs)

lemma demo_numeric_metadata:
  "validateWorkflowProperties demo_env ''automation/properties/numeric.properties.json'' =
     ([], Inl (JsError ''TypeError: properties.iconName.startsWith is not a function''))"
  by (simp add: demo_defs eval_defs)

lemma demo_greet_metadata:
  "validateWorkflowProperties demo_env ''automation/properties/greet.properties.json'' =
     ([''../../icons/wave.svg''],
      Inr [''instance.categories is not any of [subschema 0],[subschema 1]''])"
  by (simp add: demo_defs eval_defs)

lemmas demo_metadata =
  demo_build_metadata demo_broken_metadata demo_lint_metadata demo_label_metadata
  demo_stale_metadata demo_numeric_metadata demo_greet_metadata

lemma demo_checkWorkflow:
  "checkWorkflow demo_env ''ci/build.yml'' ''ci/properties/build.properties.json'' =
     Inr \<lparr>id' = ''ci/build.yml'', errors = []\<rparr>"
  "checkWorkflow demo_env ''ci/broken.yml'' ''ci/properties/broken.properties.json'' =
     Inr \<lparr>id' = ''ci/broken.yml'',
      errors = [''instance.name is required'', ''No icon named rocket found'',
                ''YAMLException: unexpected end of the stream within a flow collection'']\<rparr>"
  "checkWorkflow demo_env ''ci/lint.yml'' ''ci/properties/lint.properties.json'' =
     Inr \<lparr>id' = ''ci/lint.yml'', errors = [''SyntaxError: Unexpected end of JSON input'']\<rparr>"
  "checkWorkflow demo_env ''automation/label.yml'' ''automation/properties/label.properties.json'' =
     Inr \<lparr>id' = ''automation/label.yml'',
      errors = [''Error: ENOENT: no such file or directory, open automation/properties/label.properties.json'']\<rparr>"
  "checkWorkflow demo_env ''automation/stale.yml'' ''automation/properties/stale.properties.json'' =
     Inr \<lparr>id' = ''automation/stale.yml'', errors = []\<rparr>"
  "checkWorkflow demo_env ''automation/numeric.yml'' ''automation/properties/numeric.properties.json'' =
     Inr \<lparr>id' = ''automation/numeric.yml'',
      errors = [''TypeError: properties.iconName.startsWith is not a function'']\<rparr>"
  "checkWorkflow demo_env ''automation/greet.yml'' ''automation/properties/greet.properties.json'' =
     Inr \<lparr>id' = ''automation/greet.yml'',
      errors = [''instance.categories is not any of [subschema 0],[subschema 1]'',
                ''instance requires property \"on\"'']\<rparr>"
  by (simp_all add: checkWorkflow_def checkWorkflow_try_def demo_metadata)
     (simp_all add: demo_defs)

lemma demo_paths:
  "workflowFilePath demo_env ''ci'' \<lparr>name = ''build.yml'', isFile = True\<rparr> = ''ci/build.yml''"
  "propertiesFilePath demo_env ''ci'' \<lparr>name = ''build.yml'', isFile = True\<rparr> =
     ''ci/properties/build.properties.json''"
  "workflowFilePath demo_env ''ci'' \<lparr>name = ''broken.yml'', isFile = True\<rparr> = ''ci/broken.yml''"
  "propertiesFilePath demo_env ''ci'' \<lparr>name = ''broken.yml'', isFile = True\<rparr> =
     ''ci/properties/broken.properties.json''"
  "workflowFilePath demo_env ''ci'' \<lparr>name = ''lint.yml'', isFile = True\<rparr> = ''ci/lint.yml''"
  "propertiesFilePath demo_env ''ci'' \<lparr>name = ''lint.yml'', isFile = True\<rparr> =
     ''ci/properties/lint.properties.json''"
  "workflowFilePath demo_env ''automation'' \<lparr>name = ''label.yml'', isFile = True\<rparr> =
     ''automation/label.yml''"
  "propertiesFilePath demo_env ''automation'' \<lparr>name = ''label.yml'', isFile = True\<rparr> =
     ''automation/properties/label.properties.json''"
  "workflowFilePath demo_env ''automation'' \<lparr>name = ''stale.yml'', isFile = True\<rparr> =
     ''automation/stale.yml''"
  "propertiesFilePath demo_env ''automation'' \<lparr>name = ''stale.yml'', isFile = True\<rparr> =
     ''automation/properties/stale.properties.json''"
  "workflowFilePath demo_env ''automation'' \<lparr>name = ''numeric.yml'', isFile = True\<rparr> =
     ''automation/numeric.yml''"
  "propertiesFilePath demo_env ''automation'' \<lparr>name = ''numeric.yml'', isFile = True\<rparr> =
     ''automation/properties/numeric.properties.json''"
  "workflowFilePath demo_env ''automation'' \<lparr>name = ''greet.yml'', isFile = True\<rparr> =
     ''automation/greet.yml''"
  "propertiesFilePath demo_env ''automation'' \<lparr>name = ''greet.yml'', isFile = True\<rparr> =
     ''automation/properties/greet.properties.json''"
  by (simp_all add: workflowFilePath_def propertiesFilePath_def demo_env_def suffix_to_prefix)

lemma demo_records:
  "checkWorkflow_record demo_env ''ci'' \<lparr>name = ''build.yml'', isFile = True\<rparr> =
     \<lparr>id' = ''ci/build.yml'', errors = []\<rparr>"
  "checkWorkflow_record demo_env ''ci'' \<lparr>name = ''broken.yml'', isFile = True\<rparr> =
     \<lparr>id' = ''ci/broken.yml'',
      errors = [''instance.name is required'', ''No icon named rocket found'',
                ''YAMLException: unexpected end of the stream within a flow collection'']\<rparr>"
  "checkWorkflow_record demo_env ''ci'' \<lparr>name = ''lint.yml'', isFile = True\<rparr> =
     \<lparr>id' = ''ci/lint.yml'', errors = [''SyntaxError: Unexpected end of JSON input'']\<rparr>"
  "checkWorkflow_record demo_env ''automation'' \<lparr>name = ''label.yml'', isFile = True\<rparr> =
     \<lparr>id' = ''automation/label.yml'',
      errors = [''Error: ENOENT: no such file or directory, open automation/properties/label.properties.json'']\<rparr>"
  "checkWorkflow_record demo_env ''automation'' \<lparr>name = ''stale.yml'', isFile = True\<rparr> =
     \<lparr>id' = ''automation/stale.yml'', errors = []\<rparr>"
  "checkWorkflow_record demo_env ''automation'' \<lparr>name = ''numeric.yml'', isFile = True\<rparr> =
     \<lparr>id' = ''automation/numeric.yml'',
      errors = [''TypeError: properties.iconName.startsWith is not a function'']\<rparr>"
  "checkWorkflow_record demo_env ''automation'' \<lparr>name = ''greet.yml'', isFile = True\<rparr> =
     \<lparr>id' = ''automation/greet.yml'',
      errors = [''instance.categories is not any of [subschema 0],[subschema 1]'',
                ''instance requires property \"on\"'']\<rparr>"
  by (simp_all only: checkWorkflow_record_def demo_paths demo_checkWorkflow sum.sel)

lemma demo_readdir_ci:
  "readdir demo_env ''ci'' =
     Inr [\<lparr>name = ''build.yml'', isFile = True\<rparr>, \<lparr>name = ''properties'', isFile = False\<rparr>,
          \<lparr>name = ''broken.yml'', isFile = True\<rparr>, \<lparr>name = ''lint.yml'', isFile = True\<rparr>]"
  by (simp add: demo_env_def demo_readdir_def)

lemma demo_readdir_automation:
  "readdir demo_env ''automation'' =
     Inr [\<lparr>name = ''label.yml'', isFile = True\<rparr>, \<lparr>name = ''stale.yml'', isFile = True\<rparr>,
          \<lparr>name = ''numeric.yml'', isFile = True\<rparr>, \<lparr>name = ''properties'', isFile = False\<rparr>,
          \<lparr>name = ''greet.yml'', isFile = True\<rparr>]"
  by (simp add: demo_env_def demo_readdir_def)

lemma demo_readdir_missing:
  "readdir demo_env ''missing'' =
     Inl (JsError ''Error: ENOENT: no such file or directory, scandir missing'')"
  by (simp add: demo_env_def demo_readdir_def)

lemma demo_parsed:
  "readFile demo_env ''ci/properties/build.properties.json'' = Inr demo_build_text"
  "JSON_parse demo_env demo_build_text = Inr demo_build_properties"
  "readFile demo_env ''ci/properties/broken.properties.json'' = Inr demo_broken_text"
  "JSON_parse demo_env demo_broken_text = Inr demo_broken_properties"
  "readFile demo_env ''automation/properties/stale.properties.json'' = Inr demo_stale_text"
  "JSON_parse demo_env demo_stale_text = Inr demo_stale_properties"
  "readFile demo_env ''automation/properties/numeric.properties.json'' = Inr demo_numeric_text"
  "JSON_parse demo_env demo_numeric_text = Inr demo_numeric_properties"
  "readFile demo_env ''automation/properties/greet.properties.json'' = Inr demo_greet_text"
  "JSON_parse demo_env demo_greet_text = Inr demo_greet_properties"
  by (simp_all add: demo_env_def demo_files_def demo_build_text_def demo_broken_text_def
        demo_stale_text_def demo_numeric_text_def demo_greet_text_def)

section \<open>The Workflow Validator\<close>

text \<open>
  Claim C1. For every pair of paths, \<^verbatim>\<open>checkWorkflow\<close> never throws: it returns a record
  whose id is the given workflow path, and every failure of the metadata validation, of
  reading or parsing the body, or of the body's schema validation ends up as a string in
  the record's errors. The right-hand side spells the errors out for each outcome.
\<close>

theorem C1_checkWorkflow_never_throws:
  "checkWorkflow env workflowPath propertiesPath =
     Inr \<lparr>id' = workflowPath,
          errors =
            (case snd (validateWorkflowProperties env propertiesPath) of
               Inl e \<Rightarrow> [toString e]
             | Inr propertiesErrors \<Rightarrow>
                 propertiesErrors @
                 (case readFile env workflowPath of
                    Inl e \<Rightarrow> [toString e]
                  | Inr workflowFileContent \<Rightarrow>
                      (case safeLoad env workflowFileContent of
                         Inl e \<Rightarrow> [toString e]
                       | Inr workflow \<Rightarrow>
                           (case validateWorkflowSchema env workflow of
                              Inl e \<Rightarrow> [toString e]
                            | Inr workflowValidationErrors \<Rightarrow> workflowValidationErrors))))\<rparr>"
  by (simp add: checkWorkflow_def checkWorkflow_try_def Let_def split: sum.splits)

theorem C1_checkWorkflow_never_throws_witness:
  "checkWorkflow demo_env ''automation/greet.yml'' ''automation/properties/greet.properties.json'' =
     Inr \<lparr>id' = ''automation/greet.yml'',
          errors = [''instance.categories is not any of [subschema 0],[subschema 1]'',
                    ''instance requires property \"on\"'']\<rparr>"
proof -
  have "readFile demo_env ''automation/greet.yml'' = Inr ''jobs: {}''"
    by (simp add: demo_env_def demo_files_def)
  moreover have "safeLoad demo_env ''jobs: {}'' = Inr (JObj [(''jobs'', JObj [])])"
    by (simp add: demo_env_def)
  moreover have "validateWorkflowSchema demo_env (JObj [(''jobs'', JObj [])]) =
                   Inr [''instance requires property \"on\"'']"
    by (simp add: demo_env_def)
  ultimately show ?thesis
    using C1_checkWorkflow_never_throws
      [of demo_env "''automation/greet.yml''" "''automation/properties/greet.properties.json''"]
    by (simp add: demo_greet_metadata)
qed

text \<open>
  Claim C3. When loading or parsing the metadata raises an exception (the file is missing
  or corrupt), or the Metadata Validator throws for any other reason, the record returned
  by \<^verbatim>\<open>checkWorkflow\<close> holds exactly one error, the rendered exception: no schema violation
  of the metadata or of the body is reported beside it.
\<close>

theorem C3_metadata_exception_is_sole_error:
  assumes "readFile env propertiesPath = Inl e \<or>
           (\<exists>content. readFile env propertiesPath = Inr content \<and> JSON_parse env content = Inl e) \<or>
           snd (validateWorkflowProperties env propertiesPath) = Inl e"
  shows "checkWorkflow env workflowPath propertiesPath =
           Inr \<lparr>id' = workflowPath, errors = [toString e]\<rparr>"
proof -
  have "snd (validateWorkflowProperties env propertiesPath) = Inl e"
    using assms validateWorkflowProperties_load_fails validateWorkflowProperties_parse_fails
    by fastforce
  then show ?thesis
    by (simp add: checkWorkflow_def checkWorkflow_try_def)
qed

theorem C3_metadata_exception_is_sole_error_witness:
  "readFile demo_env ''automation/properties/label.properties.json'' =
     Inl (JsError ''Error: ENOENT: no such file or directory, open automation/properties/label.properties.json'') \<and>
   checkWorkflow demo_env ''automation/label.yml'' ''automation/properties/label.properties.json'' =
     Inr \<lparr>id' = ''automation/label.yml'',
          errors = [''Error: ENOENT: no such file or directory, open automation/properties/label.properties.json'']\<rparr> \<and>
   readFile demo_env ''ci/properties/lint.properties.json'' = Inr ''{'' \<and>
   JSON_parse demo_env ''{'' = Inl (JsError ''SyntaxError: Unexpected end of JSON input'') \<and>
   checkWorkflow demo_env ''ci/lint.yml'' ''ci/properties/lint.properties.json'' =
     Inr \<lparr>id' = ''ci/lint.yml'', errors = [''SyntaxError: Unexpected end of JSON input'']\<rparr>"
proof -
  have missing: "readFile demo_env ''automation/properties/label.properties.json'' =
     Inl (JsError ''Error: ENOENT: no such file or directory, open automation/properties/label.properties.json'')"
    by (simp add: demo_env_def demo_files_def)
  have corrupt: "readFile demo_env ''ci/properties/lint.properties.json'' = Inr ''{''"
    "JSON_parse demo_env ''{'' = Inl (JsError ''SyntaxError: Unexpected end of JSON input'')"
    by (simp_all add: demo_defs)
  have "\<exists>content. readFile demo_env ''ci/properties/lint.properties.json'' = Inr content \<and>
          JSON_parse demo_env content = Inl (JsError ''SyntaxError: Unexpected end of JSON input'')"
    using corrupt by blast
  then have "checkWorkflow demo_env ''ci/lint.yml'' ''ci/properties/lint.properties.json'' =
     Inr \<lparr>id' = ''ci/lint.yml'', errors = [''SyntaxError: Unexpected end of JSON input'']\<rparr>"
    using C3_metadata_exception_is_sole_error
        [of demo_env "''ci/properties/lint.properties.json''"
            "JsError ''SyntaxError: Unexpected end of JSON input''" "''ci/lint.yml''"]
    by simp
  moreover have "checkWorkflow demo_env ''automation/label.yml''
       ''automation/properties/label.properties.json'' =
     Inr \<lparr>id' = ''automation/label.yml'',
          errors = [''Error: ENOENT: no such file or directory, open automation/properties/label.properties.json'']\<rparr>"
    using C3_metadata_exception_is_sole_error [OF disjI1 [OF missing], of "''automation/label.yml''"]
    by simp
  ultimately show ?thesis
    using missing corrupt by simp
qed

text \<open>
  Claim C4. When the metadata validation completed normally and the YAML loader throws on
  the workflow body, \<^verbatim>\<open>checkWorkflow\<close> does not throw: it returns the record with the
  metadata errors followed by exactly one more error, the rendered parse exception.
\<close>

theorem C4_body_parse_failure_appends_one_error:
  assumes "snd (validateWorkflowProperties env propertiesPath) = Inr propertiesErrors"
    and "readFile env workflowPath = Inr workflowFileContent"
    and "safeLoad env workflowFileContent = Inl e"
  shows "checkWorkflow env workflowPath propertiesPath =
           Inr \<lparr>id' = workflowPath, errors = propertiesErrors @ [toString e]\<rparr>"
  using assms by (simp add: checkWorkflow_def checkWorkflow_try_def)

theorem C4_body_parse_failure_appends_one_error_witness:
  "snd (validateWorkflowProperties demo_env ''ci/properties/broken.properties.json'') =
     Inr [''instance.name is required'', ''No icon named rocket found''] \<and>
   readFile demo_env ''ci/broken.yml'' = Inr ''on: ['' \<and>
   safeLoad demo_env ''on: ['' =
     Inl (JsError ''YAMLException: unexpected end of the stream within a flow collection'') \<and>
   checkWorkflow demo_env ''ci/broken.yml'' ''ci/properties/broken.properties.json'' =
     Inr \<lparr>id' = ''ci/broken.yml'',
          errors = [''instance.name is required'', ''No icon named rocket found'',
                    ''YAMLException: unexpected end of the stream within a flow collection'']\<rparr>"
proof -
  have metadata: "snd (validateWorkflowProperties demo_env ''ci/properties/broken.properties.json'') =
     Inr [''instance.name is required'', ''No icon named rocket found'']"
    by (simp add: demo_broken_metadata)
  have body: "readFile demo_env ''ci/broken.yml'' = Inr ''on: [''"
    by (simp add: demo_env_def demo_files_def)
  have parse: "safeLoad demo_env ''on: ['' =
     Inl (JsError ''YAMLException: unexpected end of the stream within a flow collection'')"
    by (simp add: demo_env_def)
  from C4_body_parse_failure_appends_one_error [OF metadata body parse] metadata body parse
  show ?thesis by simp
qed

section \<open>The Directory Scanner\<close>

text \<open>
  Claim C2. For every sequence of folders that can be listed, \<^verbatim>\<open>checkWorkflows\<close> returns
  exactly the records with a non-empty error list among the records of the regular files,
  in discovery order (folder order, then listing order within a folder); the records with
  no error are dropped.
\<close>

theorem C2_checkWorkflows_keeps_errored_records:
  assumes "\<forall>folder \<in> set folders. \<exists>dir. readdir env folder = Inr dir"
  shows "checkWorkflows env folders =
           Inr (filter (\<lambda>r. errors r \<noteq> []) (discovered env folders))"
  using checkFolders_filter [OF assms, of "[]"] by (simp add: checkWorkflows_def)

theorem C2_checkWorkflows_keeps_errored_records_witness:
  "readdir demo_env ''ci'' =
     Inr [\<lparr>name = ''build.yml'', isFile = True\<rparr>, \<lparr>name = ''properties'', isFile = False\<rparr>,
          \<lparr>name = ''broken.yml'', isFile = True\<rparr>, \<lparr>name = ''lint.yml'', isFile = True\<rparr>] \<and>
   readdir demo_env ''automation'' =
     Inr [\<lparr>name = ''label.yml'', isFile = True\<rparr>, \<lparr>name = ''stale.yml'', isFile = True\<rparr>,
          \<lparr>name = ''numeric.yml'', isFile = True\<rparr>, \<lparr>name = ''properties'', isFile = False\<rparr>,
          \<lparr>name = ''greet.yml'', isFile = True\<rparr>] \<and>
   checkWorkflows demo_env [''ci'', ''automation''] =
     Inr [\<lparr>id' = ''ci/broken.yml'',
           errors = [''instance.name is required'', ''No icon named rocket found'',
                     ''YAMLException: unexpected end of the stream within a flow collection'']\<rparr>,
          \<lparr>id' = ''ci/lint.yml'', errors = [''SyntaxError: Unexpected end of JSON input'']\<rparr>,
          \<lparr>id' = ''automation/label.yml'',
           errors = [''Error: ENOENT: no such file or directory, open automation/properties/label.properties.json'']\<rparr>,
          \<lparr>id' = ''automation/numeric.yml'',
           errors = [''TypeError: properties.iconName.startsWith is not a function'']\<rparr>,
          \<lparr>id' = ''automation/greet.yml'',
           errors = [''instance.categories is not any of [subschema 0],[subschema 1]'',
                     ''instance requires property \"on\"'']\<rparr>]"
proof -
  have "\<forall>folder \<in> set [''ci'', ''automation'']. \<exists>dir. readdir demo_env folder = Inr dir"
    using demo_readdir_ci demo_readdir_automation by simp
  from C2_checkWorkflows_keeps_errored_records [OF this]
    demo_readdir_ci demo_readdir_automation
  show ?thesis
    by (simp add: discovered_def listing_def demo_records)
qed

text \<open>
  Claim C9. When listing one of the folders fails, \<^verbatim>\<open>checkWorkflows\<close> does not recover
  per folder: it throws the exception of a failed listing, no result is returned, and the
  driver handles the exception in its top-level \<^verbatim>\<open>catch\<close>, where it logs it and marks the
  process failed.
\<close>

theorem C9_listing_failure_aborts_scan:
  assumes "settingsFolders env = Inr folders"
    and "folder \<in> set folders" and "readdir env folder = Inl e"
  shows "\<exists>f e1. f \<in> set folders \<and> readdir env f = Inl e1 \<and>
           checkWorkflows env folders = Inl e1 \<and>
           main env =
             [Error (''Unhandled error while syncing workflows: '' @ toString e1),
              SetFailed ''Unhandled error'']"
proof -
  from checkFolders_listing_fails [OF assms(2,3), of "[]"]
  obtain f e1 where f: "f \<in> set folders" "readdir env f = Inl e1"
    and thrown: "checkWorkflows env folders = Inl e1"
    unfolding checkWorkflows_def by blast
  have "main env = main_catch e1"
    by (simp add: main_def assms(1) thrown)
  with f thrown show ?thesis
    by (auto simp: main_catch_def)
qed

theorem C9_listing_failure_aborts_scan_witness:
  "settingsFolders demo_env_missing = Inr [''ci'', ''missing'', ''automation''] \<and>
   readdir demo_env_missing ''missing'' =
     Inl (JsError ''Error: ENOENT: no such file or directory, scandir missing'') \<and>
   checkWorkflows demo_env_missing [''ci'', ''missing'', ''automation''] =
     Inl (JsError ''Error: ENOENT: no such file or directory, scandir missing'') \<and>
   main demo_env_missing =
     [Error ''Unhandled error while syncing workflows: Error: ENOENT: no such file or directory, scandir missing'',
      SetFailed ''Unhandled error'']"
proof -
  have settings: "settingsFolders demo_env_missing = Inr [''ci'', ''missing'', ''automation'']"
    by (simp add: demo_env_missing_def)
  have listing: "readdir demo_env_missing = readdir demo_env"
    by (simp add: demo_env_missing_def)
  have missing: "readdir demo_env_missing ''missing'' =
     Inl (JsError ''Error: ENOENT: no such file or directory, scandir missing'')"
    by (simp add: listing demo_readdir_missing)
  have mem: "''missing'' \<in> set [''ci'', ''missing'', ''automation'']"
    by simp
  from C9_listing_failure_aborts_scan [OF settings mem missing]
  obtain f e1 where f: "f \<in> set [''ci'', ''missing'', ''automation'']"
    and failed: "readdir demo_env_missing f = Inl e1"
    and thrown: "checkWorkflows demo_env_missing [''ci'', ''missing'', ''automation''] = Inl e1"
    and logged: "main demo_env_missing =
      [Error (''Unhandled error while syncing workflows: '' @ toString e1),
       SetFailed ''Unhandled error'']"
    by blast
  from f failed have "e1 = JsError ''Error: ENOENT: no such file or directory, scandir missing''"
    using demo_readdir_ci demo_readdir_automation demo_readdir_missing
    by (auto simp: listing)
  with settings missing thrown logged show ?thesis by simp
qed

section \<open>The Metadata Validator\<close>

text \<open>
  Claim C5, as the code has it. For every metadata document whose \<^verbatim>\<open>iconName\<close> is a non-empty
  string that does not start with \<^verbatim>\<open>octicon\<close>, \<^verbatim>\<open>validateWorkflowProperties\<close> checks the
  file \<^verbatim>\<open>../../icons/<iconName>.svg\<close>: when the file cannot be accessed, the result is the
  schema violations followed by the error naming that icon; when it can, the result is
  the schema violations alone, none of which is that error.
\<close>

theorem C5_missing_icon_reported:
  assumes "readFile env propertiesPath = Inr content"
    and "JSON_parse env content = Inr (JObj kvs)"
    and "map_of kvs ''iconName'' = Some (JStr s)"
    and "s \<noteq> []"
    and "\<not> startsWith s ''octicon''"
  shows "validateWorkflowProperties env propertiesPath =
           ([''../../icons/'' @ s @ ''.svg''],
            Inr (map ValidationError_toString (validate (JObj kvs) propertiesSchema) @
                 (case access env (''../../icons/'' @ s @ ''.svg'') of
                    Inl e \<Rightarrow> [''No icon named '' @ s @ '' found'']
                  | Inr u \<Rightarrow> []))) \<and>
         ''No icon named '' @ s @ '' found'' \<notin>
           set (map ValidationError_toString (validate (JObj kvs) propertiesSchema))"
  using assms(3-5) no_icon_error_among_violations [of s "JObj kvs"]
  by (simp add: validateWorkflowProperties_object [OF assms(1,2)] split: sum.splits)

theorem C5_missing_icon_reported_witness:
  "readFile demo_env ''ci/properties/broken.properties.json'' = Inr demo_broken_text \<and>
   JSON_parse demo_env demo_broken_text =
     Inr (JObj [(''description'', JStr ''Deploy''), (''iconName'', JStr ''rocket''),
                (''categories'', JNull)]) \<and>
   \<not> startsWith ''rocket'' ''octicon'' \<and>
   access demo_env ''../../icons/rocket.svg'' =
     Inl (JsError ''Error: ENOENT: no such file or directory, access ../../icons/rocket.svg'') \<and>
   validateWorkflowProperties demo_env ''ci/properties/broken.properties.json'' =
     ([''../../icons/rocket.svg''],
      Inr [''instance.name is required'', ''No icon named rocket found'']) \<and>
   readFile demo_env ''automation/properties/greet.properties.json'' = Inr demo_greet_text \<and>
   JSON_parse demo_env demo_greet_text =
     Inr (JObj [(''name'', JStr ''Greet''), (''description'', JStr ''Greet newcomers''),
                (''iconName'', JStr ''wave''), (''categories'', JStr ''fun'')]) \<and>
   \<not> startsWith ''wave'' ''octicon'' \<and>
   access demo_env ''../../icons/wave.svg'' = Inr () \<and>
   validateWorkflowProperties demo_env ''automation/properties/greet.properties.json'' =
     ([''../../icons/wave.svg''],
      Inr [''instance.categories is not any of [subschema 0],[subschema 1]''])"
proof -
  let ?broken = "[(''description'', JStr ''Deploy''), (''iconName'', JStr ''rocket''),
                  (''categories'', JNull)]"
  let ?greet = "[(''name'', JStr ''Greet''), (''description'', JStr ''Greet newcomers''),
                 (''iconName'', JStr ''wave''), (''categories'', JStr ''fun'')]"
  have loaded: "readFile demo_env ''ci/properties/broken.properties.json'' = Inr demo_broken_text"
    "readFile demo_env ''automation/properties/greet.properties.json'' = Inr demo_greet_text"
    by (rule demo_parsed)+
  have doc: "JSON_parse demo_env demo_broken_text = Inr (JObj ?broken)"
    "JSON_parse demo_env demo_greet_text = Inr (JObj ?greet)"
    by (simp_all add: demo_parsed demo_broken_properties_def demo_greet_properties_def)
  have icon: "map_of ?broken ''iconName'' = Some (JStr ''rocket'')"
    "map_of ?greet ''iconName'' = Some (JStr ''wave'')"
    by simp_all
  have nonempty: "''rocket'' \<noteq> []" "''wave'' \<noteq> []"
    by simp_all
  have custom: "\<not> startsWith ''rocket'' ''octicon''" "\<not> startsWith ''wave'' ''octicon''"
    by (simp_all add: startsWith_def)
  have icons: "access demo_env ''../../icons/rocket.svg'' =
     Inl (JsError ''Error: ENOENT: no such file or directory, access ../../icons/rocket.svg'')"
    "access demo_env ''../../icons/wave.svg'' = Inr ()"
    by (simp_all add: demo_env_def)
  have violations: "map ValidationError_toString (validate (JObj ?broken) propertiesSchema) =
     [''instance.name is required'']"
    "map ValidationError_toString (validate (JObj ?greet) propertiesSchema) =
     [''instance.categories is not any of [subschema 0],[subschema 1]'']"
    by (simp_all add: validate_def propertiesSchema_def ValidationError_toString_def
          showNat_0 showNat_1 upt_rec)
  from C5_missing_icon_reported [OF loaded(1) doc(1) icon(1) nonempty(1) custom(1)]
    C5_missing_icon_reported [OF loaded(2) doc(2) icon(2) nonempty(2) custom(2)]
    loaded doc custom icons
  show ?thesis
    by (simp add: violations)
qed

text \<open>
  The claim as the specification states it, for every \<^verbatim>\<open>iconName\<close> that does not start with
  \<^verbatim>\<open>octicon\<close>, fails for the empty name: it does not start with the prefix and no file
  \<^verbatim>\<open>../../icons/.svg\<close> exists, yet no error is reported and no file is checked.
\<close>

theorem C5_empty_icon_counterexample:
  "readFile demo_env ''automation/properties/stale.properties.json'' = Inr demo_stale_text \<and>
   JSON_parse demo_env demo_stale_text =
     Inr (JObj [(''name'', JStr ''Stale''), (''description'', JStr ''Close stale issues''),
                (''iconName'', JStr ''''), (''categories'', JNull)]) \<and>
   \<not> startsWith '''' ''octicon'' \<and>
   access demo_env ''../../icons/.svg'' =
     Inl (JsError ''Error: ENOENT: no such file or directory, access ../../icons/.svg'') \<and>
   validateWorkflowProperties demo_env ''automation/properties/stale.properties.json'' =
     ([], Inr [])"
  by (simp add: demo_parsed demo_stale_properties_def demo_stale_metadata startsWith_def)
     (simp add: demo_env_def)

text \<open>
  Claim C6. For every metadata document whose \<^verbatim>\<open>iconName\<close> starts with \<^verbatim>\<open>octicon\<close>,
  \<^verbatim>\<open>validateWorkflowProperties\<close> hands no path to \<^verbatim>\<open>fs.access\<close> and returns the schema
  violations alone, whatever \<^verbatim>\<open>fs.access\<close> would answer; none of them is a missing-icon
  error.
\<close>

theorem C6_builtin_icon_skips_check:
  assumes "readFile env propertiesPath = Inr content"
    and "JSON_parse env content = Inr (JObj kvs)"
    and "map_of kvs ''iconName'' = Some (JStr s)"
    and "startsWith s ''octicon''"
  shows "validateWorkflowProperties (env\<lparr>access := a\<rparr>) propertiesPath =
           ([], Inr (map ValidationError_toString (validate (JObj kvs) propertiesSchema))) \<and>
         (\<forall>x. ''No icon named '' @ x @ '' found'' \<notin>
                set (map ValidationError_toString (validate (JObj kvs) propertiesSchema)))"
proof -
  have "s \<noteq> []"
    using assms(4) by (auto simp: startsWith_def)
  then show ?thesis
    using assms no_icon_error_among_violations [of _ "JObj kvs"]
    by (simp add: validateWorkflowProperties_def)
qed

theorem C6_builtin_icon_skips_check_witness:
  "readFile demo_env ''ci/properties/build.properties.json'' = Inr demo_build_text \<and>
   JSON_parse demo_env demo_build_text =
     Inr (JObj [(''name'', JStr ''Build''), (''description'', JStr ''Build and test''),
                (''iconName'', JStr ''octicon rocket''), (''categories'', JArr [JStr ''CI''])]) \<and>
   startsWith ''octicon rocket'' ''octicon'' \<and>
   validateWorkflowProperties (demo_env\<lparr>access := \<lambda>p. Inl (JsError ''Error: ENOENT'')\<rparr>)
     ''ci/properties/build.properties.json'' = ([], Inr []) \<and>
   validateWorkflowProperties (demo_env\<lparr>access := \<lambda>p. Inr ()\<rparr>)
     ''ci/properties/build.properties.json'' = ([], Inr [])"
proof -
  let ?kvs = "[(''name'', JStr ''Build''), (''description'', JStr ''Build and test''),
               (''iconName'', JStr ''octicon rocket''), (''categories'', JArr [JStr ''CI''])]"
  have loaded: "readFile demo_env ''ci/properties/build.properties.json'' = Inr demo_build_text"
    by (rule demo_parsed)
  have doc: "JSON_parse demo_env demo_build_text = Inr (JObj ?kvs)"
    by (simp add: demo_parsed demo_build_properties_def)
  have icon: "map_of ?kvs ''iconName'' = Some (JStr ''octicon rocket'')"
    by simp
  have builtin: "startsWith ''octicon rocket'' ''octicon''"
    by (simp add: startsWith_def)
  have violations: "map ValidationError_toString (validate (JObj ?kvs) propertiesSchema) = []"
    by (simp add: validate_def propertiesSchema_def ValidationError_toString_def)
  from C6_builtin_icon_skips_check [OF loaded doc icon builtin, of "\<lambda>p. Inl (JsError ''Error: ENOENT'')"]
    C6_builtin_icon_skips_check [OF loaded doc icon builtin, of "\<lambda>p. Inr ()"]
    loaded doc builtin
  show ?thesis
    by (simp add: violations)
qed

text \<open>
  Claim C10. For every metadata document whose \<^verbatim>\<open>iconName\<close> is present and falsy (the empty
  string, null, false or zero), \<^verbatim>\<open>validateWorkflowProperties\<close> hands no path to
  \<^verbatim>\<open>fs.access\<close> and returns the schema violations alone, whatever \<^verbatim>\<open>fs.access\<close> would
  answer; none of them is a missing-icon error.
\<close>

theorem C10_falsy_icon_skips_check:
  assumes "readFile env propertiesPath = Inr content"
    and "JSON_parse env content = Inr (JObj kvs)"
    and "map_of kvs ''iconName'' = Some v"
    and "\<not> truthy (Some v)"
  shows "validateWorkflowProperties (env\<lparr>access := a\<rparr>) propertiesPath =
           ([], Inr (map ValidationError_toString (validate (JObj kvs) propertiesSchema))) \<and>
         (\<forall>x. ''No icon named '' @ x @ '' found'' \<notin>
                set (map ValidationError_toString (validate (JObj kvs) propertiesSchema)))"
  using assms no_icon_error_among_violations [of _ "JObj kvs"]
  by (simp add: validateWorkflowProperties_def)

theorem C10_falsy_icon_skips_check_witness:
  "readFile demo_env ''automation/properties/stale.properties.json'' = Inr demo_stale_text \<and>
   JSON_parse demo_env demo_stale_text =
     Inr (JObj [(''name'', JStr ''Stale''), (''description'', JStr ''Close stale issues''),
                (''iconName'', JStr ''''), (''categories'', JNull)]) \<and>
   \<not> truthy (Some (JStr '''')) \<and>
   validateWorkflowProperties (demo_env\<lparr>access := \<lambda>p. Inl (JsError ''Error: ENOENT'')\<rparr>)
     ''automation/properties/stale.properties.json'' = ([], Inr []) \<and>
   validateWorkflowProperties (demo_env\<lparr>access := \<lambda>p. Inr ()\<rparr>)
     ''automation/properties/stale.properties.json'' = ([], Inr [])"
proof -
  let ?kvs = "[(''name'', JStr ''Stale''), (''description'', JStr ''Close stale issues''),
               (''iconName'', JStr ''''), (''categories'', JNull)]"
  have loaded: "readFile demo_env ''automation/properties/stale.properties.json'' = Inr demo_stale_text"
    by (rule demo_parsed)
  have doc: "JSON_parse demo_env demo_stale_text = Inr (JObj ?kvs)"
    by (simp add: demo_parsed demo_stale_properties_def)
  have icon: "map_of ?kvs ''iconName'' = Some (JStr '''')"
    by simp
  have falsy: "\<not> truthy (Some (JStr ''''))"
    by simp
  have violations: "map ValidationError_toString (validate (JObj ?kvs) propertiesSchema) = []"
    by (simp add: validate_def propertiesSchema_def ValidationError_toString_def)
  from C10_falsy_icon_skips_check [OF loaded doc icon falsy, of "\<lambda>p. Inl (JsError ''Error: ENOENT'')"]
    C10_falsy_icon_skips_check [OF loaded doc icon falsy, of "\<lambda>p. Inr ()"]
    loaded doc falsy
  show ?thesis
    by (simp add: violations)
qed

text \<open>
  Claim C7. For every metadata document that parses but lacks \<^verbatim>\<open>name\<close>, \<^verbatim>\<open>description\<close> or
  \<^verbatim>\<open>iconName\<close>, the Metadata Validator should return a non-empty error list containing the
  violation of the missing field. The code breaks this for the document
  \<^verbatim>\<open>{"description":"Numeric icon","iconName":5,"categories":null}\<close>, which lacks \<^verbatim>\<open>name\<close>:
  the validation on lines 74 to 76 finds \<^verbatim>\<open>instance.name is required\<close> and that \<^verbatim>\<open>iconName\<close>
  is not a string, then line 77 calls \<^verbatim>\<open>startsWith\<close> on the number, the call throws, and
  the violations are lost: \<^verbatim>\<open>validateWorkflowProperties\<close> returns no list and the record of
  \<^verbatim>\<open>checkWorkflow\<close> holds the rendered exception alone.
\<close>

theorem C7_numeric_icon_loses_violations:
  "readFile demo_env ''automation/properties/numeric.properties.json'' = Inr demo_numeric_text \<and>
   JSON_parse demo_env demo_numeric_text =
     Inr (JObj [(''description'', JStr ''Numeric icon''), (''iconName'', JNum 5),
                (''categories'', JNull)]) \<and>
   map_of [(''description'', JStr ''Numeric icon''), (''iconName'', JNum 5),
           (''categories'', JNull)] ''name'' = None \<and>
   map ValidationError_toString
     (validate (JObj [(''description'', JStr ''Numeric icon''), (''iconName'', JNum 5),
                      (''categories'', JNull)]) propertiesSchema) =
     [''instance.name is required'', ''instance.iconName is not of a type(s) string''] \<and>
   snd (validateWorkflowProperties demo_env ''automation/properties/numeric.properties.json'') =
     Inl (JsError ''TypeError: properties.iconName.startsWith is not a function'') \<and>
   checkWorkflow demo_env ''automation/numeric.yml''
       ''automation/properties/numeric.properties.json'' =
     Inr \<lparr>id' = ''automation/numeric.yml'',
          errors = [''TypeError: properties.iconName.startsWith is not a function'']\<rparr>"
  by (simp add: demo_parsed demo_numeric_properties_def demo_numeric_metadata demo_checkWorkflow)
     (simp add: validate_def propertiesSchema_def ValidationError_toString_def)

text \<open>
  The sibling paths do what the claim says. Whenever the test on line 77 does not throw,
  that is, when \<^verbatim>\<open>iconName\<close> is absent, falsy or a string, the violation of the missing field
  is in the returned list; so it is for the same document with the falsy number 0 as
  \<^verbatim>\<open>iconName\<close>.
\<close>

lemma missing_field_reported_when_icon_test_returns:
  assumes "readFile env propertiesPath = Inr content"
    and "JSON_parse env content = Inr (JObj kvs)"
    and "field \<in> {''name'', ''description'', ''iconName''}"
    and "map_of kvs field = None"
    and "\<not> truthy (map_of kvs ''iconName'') \<or> (\<exists>s. map_of kvs ''iconName'' = Some (JStr s))"
  shows "\<exists>errs. snd (validateWorkflowProperties env propertiesPath) = Inr errs \<and>
           errs \<noteq> [] \<and> ''instance.'' @ field @ '' is required'' \<in> set errs"
proof -
  let ?violations = "map ValidationError_toString (validate (JObj kvs) propertiesSchema)"
  have mem: "''instance.'' @ field @ '' is required'' \<in> set ?violations"
    using assms(3,4) by (rule missing_field_violation)
  have "\<exists>extra. snd (validateWorkflowProperties env propertiesPath) = Inr (?violations @ extra)"
    using assms(5)
    by (auto simp: validateWorkflowProperties_object [OF assms(1,2)] Let_def split: sum.splits)
  then obtain extra where
    "snd (validateWorkflowProperties env propertiesPath) = Inr (?violations @ extra)" ..
  with mem show ?thesis by auto
qed

lemma zero_icon_keeps_violations:
  "validateWorkflowProperties
     (demo_env\<lparr>JSON_parse := \<lambda>s. Inr (JObj [(''description'', JStr ''Numeric icon''),
                                              (''iconName'', JNum 0), (''categories'', JNull)])\<rparr>)
     ''automation/properties/numeric.properties.json'' =
   ([], Inr [''instance.name is required'', ''instance.iconName is not of a type(s) string''])"
  by (simp add: validateWorkflowProperties_def demo_env_def demo_files_def validate_def
        propertiesSchema_def ValidationError_toString_def)

section \<open>The metadata schema on categories\<close>

text \<open>
  Claim C8. For every metadata document with a \<^verbatim>\<open>categories\<close> field, validating it against
  \<^verbatim>\<open>propertiesSchema\<close> yields no violation at \<^verbatim>\<open>instance.categories\<close> or below it when the
  value is an array of strings or null, and exactly one, the \<^verbatim>\<open>anyOf\<close> violation, for every
  other value.
\<close>

theorem C8_categories_array_of_strings_or_null:
  assumes "map_of kvs ''categories'' = Some v"
  shows "filter (\<lambda>e. prefix ''instance.categories'' (property e))
           (validate (JObj kvs) propertiesSchema) =
         (if isStringArrayOrNull v then []
          else [\<lparr>property = ''instance.categories'',
                 message = ''is not any of [subschema 0],[subschema 1]''\<rparr>])"
proof -
  have other: "filter (\<lambda>e. prefix ''instance.categories'' (property e))
                 (validateSchema inst s path) = []"
    if "path \<in> {''instance.name'', ''instance.description'', ''instance.creator'',
                 ''instance.iconName''}"
    for inst s path
    using that by (intro categories_filter_other) auto
  show ?thesis
    unfolding validate_JObj assms categories_violations filter_append
    by (simp add: other del: validateSchema.simps)
qed

theorem C8_categories_array_of_strings_or_null_witness:
  "map_of [(''name'', JStr ''Greet''), (''description'', JStr ''Greet newcomers''),
           (''iconName'', JStr ''wave''), (''categories'', JStr ''fun'')] ''categories'' =
     Some (JStr ''fun'') \<and>
   \<not> isStringArrayOrNull (JStr ''fun'') \<and>
   filter (\<lambda>e. prefix ''instance.categories'' (property e))
     (validate (JObj [(''name'', JStr ''Greet''), (''description'', JStr ''Greet newcomers''),
                      (''iconName'', JStr ''wave''), (''categories'', JStr ''fun'')])
        propertiesSchema) =
     [\<lparr>property = ''instance.categories'',
       message = ''is not any of [subschema 0],[subschema 1]''\<rparr>] \<and>
   map_of [(''name'', JStr ''Build''), (''description'', JStr ''Build and test''),
           (''iconName'', JStr ''octicon rocket''), (''categories'', JArr [JStr ''CI''])]
     ''categories'' = Some (JArr [JStr ''CI'']) \<and>
   isStringArrayOrNull (JArr [JStr ''CI'']) \<and>
   filter (\<lambda>e. prefix ''instance.categories'' (property e))
     (validate (JObj [(''name'', JStr ''Build''), (''description'', JStr ''Build and test''),
                      (''iconName'', JStr ''octicon rocket''),
                      (''categories'', JArr [JStr ''CI''])])
        propertiesSchema) = []"
proof -
  let ?greet = "[(''name'', JStr ''Greet''), (''description'', JStr ''Greet newcomers''),
                 (''iconName'', JStr ''wave''), (''categories'', JStr ''fun'')]"
  let ?build = "[(''name'', JStr ''Build''), (''description'', JStr ''Build and test''),
                 (''iconName'', JStr ''octicon rocket''), (''categories'', JArr [JStr ''CI''])]"
  have greet: "map_of ?greet ''categories'' = Some (JStr ''fun'')"
    by simp
  have build: "map_of ?build ''categories'' = Some (JArr [JStr ''CI''])"
    by simp
  from C8_categories_array_of_strings_or_null [OF greet]
    C8_categories_array_of_strings_or_null [OF build] greet build
  show ?thesis
    by simp
qed

end
